theory Spec2Isabelle
  imports Main "HOL-Library.Sublist" "HOL-Library.Multiset"
begin

section \<open>The folder tree builder of \<^verbatim>\<open>setup_project.py\<close>\<close>

text \<open>
  The program reads a table of folder rows (\<^verbatim>\<open>folder_name\<close>, \<^verbatim>\<open>parent\<close>,
  \<^verbatim>\<open>readme_text\<close>, \<^verbatim>\<open>minimal\<close>) and creates the directories, parents before
  children, whatever the order of the rows. The embedding follows the two classes of the
  source, \<^verbatim>\<open>Folder\<close> and \<^verbatim>\<open>ProjectTemplate\<close>.

  What the program touches outside its own objects is made explicit in one state record:
  the lines it prints, the directories and the files of the file system, and the
  dictionary \<^verbatim>\<open>_folder_tree\<close> of the builder. The table reader (pandas) is outside the
  source; a table is taken as a list of rows whose fields have the types the source
  annotates them with (\<^verbatim>\<open>str\<close>, \<^verbatim>\<open>Optional[str]\<close>, \<^verbatim>\<open>bool\<close>); a value of
  another type, such as the float the reader makes of an empty cell, is not a row of the
  model. Of the operating system the model keeps the directories and the files that
  exist, by their paths: \<^verbatim>\<open>os.mkdir\<close> creates the directory, or raises
  \<^verbatim>\<open>FileExistsError\<close> when a directory or a file has the path; \<^verbatim>\<open>open(..., 'w')\<close>
  replaces the content of the file, or raises
  \<^verbatim>\<open>NotADirectoryError\<close> when the folder it writes into is a file and
  \<^verbatim>\<open>IsADirectoryError\<close> when its own path is a directory. Paths are compared as
  strings, as on a case-sensitive file system in which every name stands for itself.
  Other failures of the operating system (permissions, names it refuses,
  \<^verbatim>\<open>os.mkdir\<close> below a path that is not a directory, what lies outside the working
  directory) and the limits of the interpreter (the depth of recursion) are outside the
  model.
\<close>

subsection \<open>Python values the source relies on\<close>

text \<open>
  \<^verbatim>\<open>err.args\<close> of an exception is a tuple, and the source compares it with a string;
  the two Python types are kept apart so that the comparison has the value it has in
  Python.
\<close>

datatype pyval = Str string | Tuple "pyval list"

datatype exn =
    Exception string      \<comment> \<open>\<^verbatim>\<open>Exception(msg)\<close>, raised by the name checks\<close>
  | AttributeError string \<comment> \<open>reading an attribute that was never assigned\<close>
  | KeyError string       \<comment> \<open>a dictionary lookup with a missing key\<close>
  | NotADirectoryError string \<comment> \<open>\<^verbatim>\<open>open\<close> of a path below a file\<close>
  | IsADirectoryError string  \<comment> \<open>\<^verbatim>\<open>open\<close> of a path that is a directory\<close>

fun args :: "exn \<Rightarrow> pyval" where
  "args (Exception m) = Tuple [Str m]"
| "args (AttributeError a) = Tuple [Str a]"
| "args (KeyError k) = Tuple [Str k]"
| "args (NotADirectoryError p) = Tuple [Str ''Not a directory'', Str p]"
| "args (IsADirectoryError p) = Tuple [Str ''Is a directory'', Str p]"

fun str_exn :: "exn \<Rightarrow> string" where
  "str_exn (Exception m) = m"
| "str_exn (AttributeError a) = a"
| "str_exn (KeyError k) = k"
| "str_exn (NotADirectoryError p) = ''Not a directory: '' @ p"
| "str_exn (IsADirectoryError p) = ''Is a directory: '' @ p"

text \<open>\<^verbatim>\<open>sub in s\<close> on strings: \<^verbatim>\<open>sub\<close> occurs in \<^verbatim>\<open>s\<close> as a contiguous piece.\<close>

fun str_in :: "string \<Rightarrow> string \<Rightarrow> bool" where
  "str_in sub [] = (sub = [])"
| "str_in sub (c # cs) = (prefix sub (c # cs) \<or> str_in sub cs)"

text \<open>\<^verbatim>\<open>sep.join(parts)\<close>.\<close>

fun join :: "string \<Rightarrow> string list \<Rightarrow> string" where
  "join sep [] = []"
| "join sep [x] = x"
| "join sep (x # y # ys) = x @ sep @ join sep (y # ys)"

text \<open>
  \<^verbatim>\<open>s.capitalize()\<close>: the first character in upper case, the others in lower case. The
  characters of a HOL string are bytes; the letters a to z and A to Z are converted, every
  other byte is kept.
\<close>

definition upper_char :: "char \<Rightarrow> char" where
  "upper_char c =
     (let n = (of_char c :: nat) in if 97 \<le> n \<and> n \<le> 122 then char_of (n - 32) else c)"

definition lower_char :: "char \<Rightarrow> char" where
  "lower_char c =
     (let n = (of_char c :: nat) in if 65 \<le> n \<and> n \<le> 90 then char_of (n + 32) else c)"

fun capitalize :: "string \<Rightarrow> string" where
  "capitalize [] = []"
| "capitalize (c # cs) = upper_char c # map lower_char cs"

definition wrap :: "string \<Rightarrow> string \<Rightarrow> string" where
  "wrap target wrapping_str = join [] [wrapping_str, target, wrapping_str]"

subsection \<open>The state\<close>

text \<open>
  A \<^verbatim>\<open>Folder\<close> object has the attributes \<^verbatim>\<open>parent\<close> and \<^verbatim>\<open>readme_text\<close>, assigned
  first, and \<^verbatim>\<open>folder_name\<close>, assigned only when the name passes the checks: an object
  whose constructor returned early has no such attribute, which is \<open>None\<close> in the first
  field here. No attribute is assigned again after the constructor and the source never
  compares two folders by identity, so an object is represented by its value, the parent
  object included.
\<close>

datatype Folder =
  Folder (folder_name : "string option") (parent : "Folder option") (readme_text : "string option")

datatype printed =
    Line string            \<comment> \<open>a line the source formats itself\<close>
  | FileExistsLine string  \<comment> \<open>\<^verbatim>\<open>print(err)\<close> of the \<^verbatim>\<open>FileExistsError\<close> for this path\<close>

record state =
  folder_tree :: "string \<rightharpoonup> Folder"   \<comment> \<open>\<^verbatim>\<open>self._folder_tree\<close>\<close>
  stdout :: "printed list"
  dirs :: "string set"                 \<comment> \<open>the directories that exist\<close>
  files :: "string \<rightharpoonup> string"         \<comment> \<open>the files written, path to content\<close>

definition print :: "printed \<Rightarrow> state \<Rightarrow> state" where
  "print l st = st\<lparr>stdout := stdout st @ [l]\<rparr>"

text \<open>One row of the table \<^verbatim>\<open>self._df\<close>.\<close>

record row =
  row_folder_name :: string
  row_parent :: string
  row_readme_text :: "string option"
  row_minimal :: bool

subsection \<open>\<^verbatim>\<open>class Folder\<close>\<close>

definition reserved_chars :: "string list" where
  "reserved_chars =
     [''<'', ''>'', '':'', [CHR 0x22], ''/'', [CHR 0x5C], ''|'', ''?'', ''*'']"

definition reserved_names :: "string list" where
  "reserved_names =
     [''CON'', ''PRN'', ''AUX'']
     @ map (\<lambda>i. ''COM'' @ [i]) ''123456789''
     @ map (\<lambda>i. ''LPT'' @ [i]) ''123456789''"

text \<open>The two checks at the head of the \<^verbatim>\<open>try\<close> block, in the order of the source.\<close>

definition check_name :: "string \<Rightarrow> exn + unit" where
  "check_name name =
     (if list_ex (\<lambda>c. str_in c name) reserved_chars then Inl (Exception ''ReservedCharError'')
      else if list_ex (\<lambda>n. str_in n name) reserved_names then Inl (Exception ''ReservedNameError'')
      else Inr ())"

text \<open>
  The property \<^verbatim>\<open>folder_path\<close>. The loop walks the parents and appends their names;
  reading \<^verbatim>\<open>folder_name\<close> of an object that has none raises \<^verbatim>\<open>AttributeError\<close>.
\<close>

fun walk_up :: "Folder option \<Rightarrow> string list \<Rightarrow> exn + string list" where
  "walk_up None path = Inr path"
| "walk_up (Some (Folder None folder_parent readme)) path = Inl (AttributeError ''folder_name'')"
| "walk_up (Some (Folder (Some n) folder_parent readme)) path = walk_up folder_parent (path @ [n])"

definition folder_path :: "Folder \<Rightarrow> exn + string" where
  "folder_path self =
     (case folder_name self of
        None \<Rightarrow> Inl (AttributeError ''folder_name'')
      | Some n \<Rightarrow>
          (case walk_up (parent self) [n] of
             Inl e \<Rightarrow> Inl e
           | Inr path \<Rightarrow> Inr (join ''/'' (rev path))))"

definition readme_content :: "string \<Rightarrow> string \<Rightarrow> string \<Rightarrow> string" where
  "readme_content name path text =
     (''##'' @ wrap (capitalize name) ''**'' @ [CHR 0x0A, CHR 0x0A])
     @ (''Folder path: '' @ wrap path [CHR 0x60] @ [CHR 0x0A, CHR 0x0A])
     @ text"

text \<open>
  The path \<^verbatim>\<open>self.folder_path + '/README_' + self.folder_name.capitalize() + '.md'\<close> of
  the README file.
\<close>

definition readme_path :: "string \<Rightarrow> string \<Rightarrow> string" where
  "readme_path path name = path @ ''/README_'' @ capitalize name @ ''.md''"

text \<open>
  \<^verbatim>\<open>create_folder\<close>. \<^verbatim>\<open>os.mkdir\<close> finds the path taken, by a directory or by a file,
  and the \<^verbatim>\<open>FileExistsError\<close> is printed; otherwise the directory is created. Nothing
  catches what \<^verbatim>\<open>open\<close> raises: the folder path is a file, or the path of the README
  is a directory.
\<close>

definition create_folder :: "Folder \<Rightarrow> state \<Rightarrow> (exn + unit) \<times> state" where
  "create_folder self st =
     (case folder_path self of
        Inl e \<Rightarrow> (Inl e, st)
      | Inr p \<Rightarrow>
          (let st1 = (if p \<in> dirs st \<or> p \<in> dom (files st) then print (FileExistsLine p) st
                      else st\<lparr>dirs := insert p (dirs st)\<rparr>)
           in case readme_text self of
                None \<Rightarrow> (Inr (), st1)
              | Some text \<Rightarrow>
                  (case folder_name self of
                     None \<Rightarrow> (Inl (AttributeError ''folder_name''), st1)
                   | Some n \<Rightarrow>
                       if p \<in> dom (files st1) then
                         (Inl (NotADirectoryError (readme_path p n)), st1)
                       else if readme_path p n \<in> dirs st1 then
                         (Inl (IsADirectoryError (readme_path p n)), st1)
                       else
                         (Inr (), st1\<lparr>files := (files st1)
                            (readme_path p n \<mapsto> readme_content n p text)\<rparr>))))"

text \<open>
  The constructor. The result is the object as it stands when \<^verbatim>\<open>__init__\<close> ends, or the
  exception that leaves it. A \<^verbatim>\<open>return\<close> inside \<^verbatim>\<open>__init__\<close> ends the initialisation
  only: the caller still receives the object. The value of
  \<^verbatim>\<open>folder_name.replace(' ', '_')\<close> is dropped by the source, so the name is kept as it
  is.
\<close>

definition Folder_init ::
  "string \<Rightarrow> Folder option \<Rightarrow> string option \<Rightarrow> state \<Rightarrow> (exn + Folder) \<times> state" where
  "Folder_init name par readme st =
     (case check_name name of
        Inl err \<Rightarrow>
          (if args err = Str ''ReservedCharError'' then
             (Inr (Folder None par readme),
              print (Line (''A reserved character ('' @ join '', '' reserved_chars
                           @ '') was used. Initialization Failed'')) st)
           else if args err = Str ''ReservedNameError'' then
             (Inr (Folder None par readme),
              print (Line (''A reserved name ('' @ join '', '' reserved_names
                           @ '') was used. Initialization Failed'')) st)
           else
             (Inr (Folder None par readme),
              print (Line (''Other unexpected error occurred: '' @ str_exn err)) st))
      | Inr _ \<Rightarrow>
          (let self = Folder (Some (if par = None then ''.'' else name)) par readme
           in if par \<noteq> None then
                (case create_folder self st of
                   (Inl e, st') \<Rightarrow> (Inl e, st')
                 | (Inr _, st') \<Rightarrow> (Inr self, st'))
              else (Inr self, st)))"

subsection \<open>\<^verbatim>\<open>class ProjectTemplate\<close>\<close>

text \<open>
  The constructor, for a table that was read: the dictionary holds the root alone. It
  takes the state of the world before the builder exists.
\<close>

definition ProjectTemplate_init :: "state \<Rightarrow> (exn + unit) \<times> state" where
  "ProjectTemplate_init w =
     (case Folder_init ''root'' None None w of
        (Inl e, w') \<Rightarrow> (Inl e, w')
      | (Inr root, w') \<Rightarrow> (Inr (), w'\<lparr>folder_tree := [''root'' \<mapsto> root]\<rparr>))"

definition n_folders :: "state \<Rightarrow> nat" where
  "n_folders st = card (dom (folder_tree st))"

text \<open>
  \<^verbatim>\<open>_add_folder_to_tree\<close>. The right-hand side of the assignment is evaluated first: the
  lookup of the parent raises \<^verbatim>\<open>KeyError\<close> when the key is missing, and an exception of
  the constructor leaves the dictionary as it was.
\<close>

definition add_folder_to_tree :: "row list \<Rightarrow> nat \<Rightarrow> state \<Rightarrow> (exn + unit) \<times> state" where
  "add_folder_to_tree df df_index st =
     (let name = row_folder_name (df ! df_index)
      in case folder_tree st (row_parent (df ! df_index)) of
           None \<Rightarrow> (Inl (KeyError (row_parent (df ! df_index))), st)
         | Some par \<Rightarrow>
             (case Folder_init (row_folder_name (df ! df_index)) (Some par)
                     (row_readme_text (df ! df_index)) st of
                (Inl e, st') \<Rightarrow> (Inl e, st')
              | (Inr folder, st') \<Rightarrow>
                  (Inr (), st'\<lparr>folder_tree := (folder_tree st')(name \<mapsto> folder)\<rparr>)))"

text \<open>\<^verbatim>\<open>names.index(parent)\<close>, called only when \<^verbatim>\<open>parent in names\<close>.\<close>

definition index :: "string list \<Rightarrow> string \<Rightarrow> nat" where
  "index names x = length (takeWhile (\<lambda>n. n \<noteq> x) names)"

text \<open>
  \<^verbatim>\<open>_check_parent_branch_exists\<close>. The body is one \<^verbatim>\<open>try\<close> statement whose
  \<^verbatim>\<open>finally\<close> clause is \<^verbatim>\<open>return in_dict_flag\<close>: whatever is raised inside, also in
  the \<^verbatim>\<open>except KeyError\<close> handler, is discarded by that \<^verbatim>\<open>return\<close>, and the flag is
  still \<open>True\<close> then. So the function always returns a truth value, and an exception of
  \<^verbatim>\<open>_add_folder_to_tree\<close> at the end of the handler changes nothing in the result.
  The list \<^verbatim>\<open>explored\<close> is extended in place; no caller reads it after the call, so the
  extended list is passed down and not returned.
\<close>

function check_parent_branch_exists ::
  "row list \<Rightarrow> bool \<Rightarrow> string \<Rightarrow> string list \<Rightarrow> state \<Rightarrow> bool \<times> state" where
  "check_parent_branch_exists df minimal par explored st =
     (case folder_tree st par of
        Some folder \<Rightarrow> (True, st)
      | None \<Rightarrow>
          (if par \<notin> set (map row_folder_name df) then
             (False, print (Line (''Parent folder '' @ par
                                  @ '' does not exist in the template file'')) st)
           else if par \<in> set explored then
             (False, print (Line (''The parent of folder '' @ par
                                  @ '' refers to a child folder already explored'')) st)
           else if \<not> minimal
                   \<or> (row_minimal (df ! index (map row_folder_name df) par) \<and> minimal) then
             (case check_parent_branch_exists df minimal
                     (row_parent (df ! index (map row_folder_name df) par))
                     (explored @ [par]) st of
                (False, st') \<Rightarrow> (False, st')
              | (True, st') \<Rightarrow>
                  (True, snd (add_folder_to_tree df (index (map row_folder_name df) par) st')))
           else
             (False, print (Line (''Minimal template required.'' @ ''Parent folder '' @ par
                                  @ '' is not included in the minimal project template.'')) st)))"
  by pat_completeness auto
termination
proof (relation "measure (\<lambda>(df, minimal, par, explored, st).
                   card (set (map row_folder_name df) - set explored))")
  show "wf (measure (\<lambda>(df, minimal, par, explored, st).
                   card (set (map row_folder_name df) - set explored)))"
    by simp
next
  fix df :: "row list" and minimal :: bool and par :: string
    and explored :: "string list" and st :: state
  assume "\<not> par \<notin> set (map row_folder_name df)" and "par \<notin> set explored"
  then have "set (map row_folder_name df) - set (explored @ [par])
             \<subset> set (map row_folder_name df) - set explored"
    by auto
  then have "card (set (map row_folder_name df) - set (explored @ [par]))
             < card (set (map row_folder_name df) - set explored)"
    by (intro psubset_card_mono) simp_all
  then show "((df, minimal, row_parent (df ! index (map row_folder_name df) par),
               explored @ [par], st),
              (df, minimal, par, explored, st))
             \<in> measure (\<lambda>(df, minimal, par, explored, st).
                   card (set (map row_folder_name df) - set explored))"
    by simp
qed

text \<open>
  \<^verbatim>\<open>create_project_tree\<close>. The call either returns a truth value or is left by an
  exception that nothing catches.
\<close>

datatype outcome = Returned bool | Raised exn

fun tree_loop :: "row list \<Rightarrow> bool \<Rightarrow> nat list \<Rightarrow> state \<Rightarrow> outcome \<times> state" where
  "tree_loop df minimal [] st = (Returned True, st)"
| "tree_loop df minimal (i # is) st =
     (if \<not> minimal \<or> (row_minimal (df ! i) \<and> minimal) then
        (case check_parent_branch_exists df minimal (row_parent (df ! i))
                [row_folder_name (df ! i)] st of
           (False, st') \<Rightarrow> (Returned False, st')
         | (True, st') \<Rightarrow>
             (case add_folder_to_tree df i st' of
                (Inl e, st'') \<Rightarrow> (Raised e, st'')
              | (Inr _, st'') \<Rightarrow> tree_loop df minimal is st''))
      else tree_loop df minimal is st)"

definition create_project_tree :: "row list \<Rightarrow> bool \<Rightarrow> state \<Rightarrow> outcome \<times> state" where
  "create_project_tree df minimal st = tree_loop df minimal [0..<length df] st"

subsection \<open>Notions used to state the properties\<close>

text \<open>The root object, as \<^verbatim>\<open>Folder('root', None, None)\<close> leaves it.\<close>

definition root_folder :: Folder where
  "root_folder = Folder (Some ''.'') None None"

text \<open>The state of a builder right after its construction, in the world \<open>w\<close>.\<close>

definition fresh :: "state \<Rightarrow> state" where
  "fresh w = snd (ProjectTemplate_init w)"

text \<open>The test both loops apply to a row before they resolve it.\<close>

definition is_candidate :: "bool \<Rightarrow> row \<Rightarrow> bool" where
  "is_candidate minimal r = (\<not> minimal \<or> (row_minimal r \<and> minimal))"

definition names :: "row list \<Rightarrow> string list" where
  "names df = map row_folder_name df"

definition candidates :: "bool \<Rightarrow> row list \<Rightarrow> row list" where
  "candidates minimal df = filter (is_candidate minimal) df"

text \<open>A folder all of whose ancestors, and itself, have a name.\<close>

fun has_names :: "Folder \<Rightarrow> bool" where
  "has_names (Folder n None readme) = (n \<noteq> None)"
| "has_names (Folder n (Some p) readme) = (n \<noteq> None \<and> has_names p)"

text \<open>The names from the root down to a folder, the folder's own name last.\<close>

fun root_to_node :: "Folder \<Rightarrow> string list" where
  "root_to_node (Folder n None readme) = (case n of None \<Rightarrow> [] | Some m \<Rightarrow> [m])"
| "root_to_node (Folder n (Some p) readme) =
     root_to_node p @ (case n of None \<Rightarrow> [] | Some m \<Rightarrow> [m])"




text \<open>
  The file system agrees with the dictionary. Every registered folder with a README text
  has its directory and its README file, and neither path is taken by the other kind;
  every registered folder below the root has its path taken, by a directory or by a file;
  and every file is one of the world \<open>w\<close> the build started in or the README file of a
  registered folder.
\<close>

definition readmes_ok :: "state \<Rightarrow> bool" where
  "readmes_ok st \<longleftrightarrow>
     (\<forall>k f p n t. folder_tree st k = Some f \<longrightarrow> folder_path f = Inr p
        \<longrightarrow> folder_name f = Some n \<longrightarrow> readme_text f = Some t
        \<longrightarrow> p \<in> dirs st \<and> p \<notin> dom (files st)
            \<and> readme_path p n \<in> dom (files st) \<and> readme_path p n \<notin> dirs st)"

definition folders_exist :: "state \<Rightarrow> bool" where
  "folders_exist st \<longleftrightarrow>
     (\<forall>k f p. folder_tree st k = Some f \<longrightarrow> parent f \<noteq> None \<longrightarrow> folder_path f = Inr p
        \<longrightarrow> p \<in> dirs st \<or> p \<in> dom (files st))"

definition files_known :: "state \<Rightarrow> state \<Rightarrow> bool" where
  "files_known w st \<longleftrightarrow>
     (\<forall>q. q \<in> dom (files st) \<longrightarrow> q \<in> dom (files w)
        \<or> (\<exists>k f p n t. folder_tree st k = Some f \<and> folder_path f = Inr p
              \<and> folder_name f = Some n \<and> readme_text f = Some t \<and> q = readme_path p n))"

definition fs_ok :: "state \<Rightarrow> state \<Rightarrow> bool" where
  "fs_ok w st \<longleftrightarrow>
     readmes_ok st \<and> folders_exist st \<and> files_known w st
     \<and> dirs w \<subseteq> dirs st \<and> dom (files w) \<subseteq> dom (files st)"



text \<open>Tables and a world for the examples.\<close>

definition mk_row :: "string \<Rightarrow> string \<Rightarrow> string option \<Rightarrow> bool \<Rightarrow> row" where
  "mk_row n p t m =
     \<lparr>row_folder_name = n, row_parent = p, row_readme_text = t, row_minimal = m\<rparr>"

definition empty_world :: state where
  "empty_world = \<lparr>folder_tree = Map.empty, stdout = [], dirs = {''.''}, files = Map.empty\<rparr>"

section \<open>Properties\<close>

subsection \<open>Evaluation and unfolding\<close>

lemma check_name_root: "check_name ''root'' = Inr ()"
  by (simp add: check_name_def reserved_chars_def reserved_names_def)

lemma ProjectTemplate_init_eq:
  "ProjectTemplate_init w = (Inr (), w\<lparr>folder_tree := [''root'' \<mapsto> root_folder]\<rparr>)"
  by (simp add: ProjectTemplate_init_def Folder_init_def check_name_root root_folder_def)

lemma fresh_eq: "fresh w = w\<lparr>folder_tree := [''root'' \<mapsto> root_folder]\<rparr>"
  by (simp add: fresh_def ProjectTemplate_init_eq)

lemma tree_loop_Cons:
  "tree_loop df minimal (i # is) st =
     (if is_candidate minimal (df ! i) then
        (case check_parent_branch_exists df minimal (row_parent (df ! i))
                [row_folder_name (df ! i)] st of
           (False, st') \<Rightarrow> (Returned False, st')
         | (True, st') \<Rightarrow>
             (case add_folder_to_tree df i st' of
                (Inl e, st'') \<Rightarrow> (Raised e, st'')
              | (Inr u, st'') \<Rightarrow> tree_loop df minimal is st''))
      else tree_loop df minimal is st)"
  unfolding is_candidate_def by (rule tree_loop.simps)

lemma check_unfold:
  "check_parent_branch_exists df minimal par explored st =
     (case folder_tree st par of
        Some folder \<Rightarrow> (True, st)
      | None \<Rightarrow>
          (if par \<notin> set (names df) then
             (False, print (Line (''Parent folder '' @ par
                                  @ '' does not exist in the template file'')) st)
           else if par \<in> set explored then
             (False, print (Line (''The parent of folder '' @ par
                                  @ '' refers to a child folder already explored'')) st)
           else if is_candidate minimal (df ! index (names df) par) then
             (case check_parent_branch_exists df minimal
                     (row_parent (df ! index (names df) par))
                     (explored @ [par]) st of
                (False, st') \<Rightarrow> (False, st')
              | (True, st') \<Rightarrow>
                  (True, snd (add_folder_to_tree df (index (names df) par) st')))
           else
             (False, print (Line (''Minimal template required.'' @ ''Parent folder '' @ par
                                  @ '' is not included in the minimal project template.'')) st)))"
  unfolding is_candidate_def names_def by (rule check_parent_branch_exists.simps)

declare tree_loop.simps(2) [simp del]
declare check_parent_branch_exists.simps [simp del]

lemma tree_loop_append:
  "tree_loop df minimal (xs @ ys) st =
     (case tree_loop df minimal xs st of
        (Returned True, st') \<Rightarrow> tree_loop df minimal ys st'
      | (Returned False, st') \<Rightarrow> (Returned False, st')
      | (Raised e, st') \<Rightarrow> (Raised e, st'))"
proof (induction xs arbitrary: st)
  case Nil
  show ?case by simp
next
  case (Cons i xs)
  show ?case
    by (simp add: tree_loop_Cons Cons.IH split: prod.split bool.split sum.split)
qed

text \<open>The rules that run the builder on a table written out.\<close>

lemmas run_simps =
  create_project_tree_def tree_loop_Cons check_unfold is_candidate_def names_def index_def
  add_folder_to_tree_def Folder_init_def create_folder_def folder_path_def print_def
  fresh_eq root_folder_def mk_row_def Let_def readme_path_def

lemma check_name_examples:
  "check_name ''a:b'' = Inl (Exception ''ReservedCharError'')"
  "check_name ''COM1'' = Inl (Exception ''ReservedNameError'')"
  "check_name ''data'' = Inr ()"
  "check_name ''raw'' = Inr ()"
  "check_name ''y'' = Inr ()"
  "check_name ''z'' = Inr ()"
  "check_name ''a'' = Inr ()"
  "check_name ''b'' = Inr ()"
  "check_name ''c'' = Inr ()"
  "check_name ''p'' = Inr ()"
  by (simp_all add: check_name_def reserved_chars_def reserved_names_def)

subsection \<open>Invalid folder names\<close>

text \<open>
  C8. A folder name with a reserved character or a reserved device name makes the
  constructor return early: no directory and no file is created. The claim also asks for
  a report of the violated rule with the offending character or name set. The source has
  the two lines for it, but selects them with \<^verbatim>\<open>err.args == 'ReservedCharError'\<close>, a
  tuple compared with a string, so the third line is the one printed, for both rules.
  The theorem runs the constructor on \<^verbatim>\<open>a:b\<close> and on \<^verbatim>\<open>COM1\<close> in any state.
\<close>

theorem Folder_init_invalid_name_report:
  "Folder_init ''a:b'' (Some root_folder) (Some ''notes'') w =
     (Inr (Folder None (Some root_folder) (Some ''notes'')),
      w\<lparr>stdout := stdout w @ [Line ''Other unexpected error occurred: ReservedCharError'']\<rparr>)
   \<and> Folder_init ''COM1'' (Some root_folder) (Some ''notes'') w =
     (Inr (Folder None (Some root_folder) (Some ''notes'')),
      w\<lparr>stdout := stdout w @ [Line ''Other unexpected error occurred: ReservedNameError'']\<rparr>)"
  by (simp add: Folder_init_def check_name_examples print_def)

text \<open>
  C4. For a candidate row with an invalid name the claim expects that the node is not
  registered and that the build returns false. In the source the early \<^verbatim>\<open>return\<close> of
  \<^verbatim>\<open>__init__\<close> still hands the object, without a \<^verbatim>\<open>folder_name\<close>, to
  \<^verbatim>\<open>_add_folder_to_tree\<close>, which stores it, and nothing tells \<^verbatim>\<open>create_project_tree\<close>
  about the failure. The theorem runs the build of the one-row table \<^verbatim>\<open>a:b\<close> under the
  root: it returns true with two entries.
\<close>

theorem invalid_name_is_registered:
  "create_project_tree [mk_row ''a:b'' ''root'' (Some ''notes'') False] False (fresh w) =
     (Returned True,
      w\<lparr>folder_tree := [''root'' \<mapsto> root_folder,
                         ''a:b'' \<mapsto> Folder None (Some root_folder) (Some ''notes'')],
        stdout := stdout w @ [Line ''Other unexpected error occurred: ReservedCharError'']\<rparr>)
   \<and> n_folders (snd (create_project_tree
         [mk_row ''a:b'' ''root'' (Some ''notes'') False] False (fresh w))) = 2"
  by (simp add: run_simps check_name_examples n_folders_def)

text \<open>
  C9. The claim: when \<^verbatim>\<open>_check_parent_branch_exists\<close> returns true for the parent name
  of a candidate, the name is a key of the dictionary, so the lookup in
  \<^verbatim>\<open>_add_folder_to_tree\<close> finds it. The comments of the source say the same. The
  \<^verbatim>\<open>finally: return in_dict_flag\<close> breaks it: in the table \<^verbatim>\<open>z\<close> under \<^verbatim>\<open>y\<close> under
  \<^verbatim>\<open>a:b\<close> under the root, the object stored for \<^verbatim>\<open>a:b\<close> has no name, the constructor
  of \<^verbatim>\<open>y\<close> raises \<^verbatim>\<open>AttributeError\<close> when it computes its path, the exception is
  dropped by the \<^verbatim>\<open>return\<close>, and the check answers true although \<^verbatim>\<open>y\<close> was not
  stored. The build then stops on \<^verbatim>\<open>KeyError\<close>.
\<close>

theorem check_true_but_key_missing:
  "check_parent_branch_exists
     [mk_row ''z'' ''y'' None False, mk_row ''y'' ''a:b'' None False,
      mk_row ''a:b'' ''root'' None False] False ''y'' [''z''] (fresh w) =
     (True,
      w\<lparr>folder_tree := [''root'' \<mapsto> root_folder,
                         ''a:b'' \<mapsto> Folder None (Some root_folder) None],
        stdout := stdout w @ [Line ''Other unexpected error occurred: ReservedCharError'']\<rparr>)
   \<and> create_project_tree
     [mk_row ''z'' ''y'' None False, mk_row ''y'' ''a:b'' None False,
      mk_row ''a:b'' ''root'' None False] False (fresh w) =
     (Raised (KeyError ''y''),
      w\<lparr>folder_tree := [''root'' \<mapsto> root_folder,
                         ''a:b'' \<mapsto> Folder None (Some root_folder) None],
        stdout := stdout w @ [Line ''Other unexpected error occurred: ReservedCharError'']\<rparr>)"
  by (simp add: run_simps check_name_examples)

subsection \<open>Paths\<close>

lemma walk_up_names:
  "walk_up p path =
     (case p of
        None \<Rightarrow> Inr path
      | Some f \<Rightarrow> if has_names f then Inr (path @ rev (root_to_node f))
                  else Inl (AttributeError ''folder_name''))"
proof (induction p path rule: walk_up.induct)
  case (1 path)
  show ?case by simp
next
  case (2 folder_parent readme path)
  show ?case by (cases folder_parent) simp_all
next
  case (3 n folder_parent readme path)
  then show ?case by (cases folder_parent) simp_all
qed

lemma folder_path_eq:
  "folder_path f =
     (if has_names f then Inr (join ''/'' (root_to_node f))
      else Inl (AttributeError ''folder_name''))"
proof (cases f)
  case (Folder n p readme)
  show ?thesis
  proof (cases n)
    case None
    then show ?thesis using Folder by (cases p) (simp_all add: folder_path_def)
  next
    case (Some m)
    then show ?thesis using Folder
      by (cases p) (simp_all add: folder_path_def walk_up_names)
  qed
qed

lemma create_folder_raises:
  "\<not> has_names self \<Longrightarrow> create_folder self st = (Inl (AttributeError ''folder_name''), st)"
  by (simp add: create_folder_def folder_path_eq)

lemma Folder_init_valid_has_names:
  assumes "Folder_init name par readme st = (Inr self, st')" and "check_name name = Inr ()"
  shows "has_names self
         \<and> root_to_node self = (case par of None \<Rightarrow> [''.''] | Some p \<Rightarrow> root_to_node p @ [name])"
proof (cases par)
  case None
  then show ?thesis using assms by (auto simp: Folder_init_def)
next
  case (Some p)
  let ?self = "Folder (Some name) (Some p) readme"
  have "has_names ?self"
  proof (rule ccontr)
    assume "\<not> has_names ?self"
    then have "create_folder ?self st = (Inl (AttributeError ''folder_name''), st)"
      by (rule create_folder_raises)
    then show False using assms Some by (simp add: Folder_init_def)
  qed
  moreover have "self = ?self"
    using assms Some by (auto simp: Folder_init_def Let_def split: prod.splits sum.splits)
  ultimately show ?thesis using Some by simp
qed

text \<open>
  C7. The path of a folder is the \<^verbatim>\<open>/\<close>-joined list of the names from the root down to
  the folder, whenever all of them exist (otherwise reading the path raises). A folder
  that the constructor returns for a valid name has all these names; built without a
  parent its only name is the root marker \<^verbatim>\<open>.\<close>, whatever name was passed, and built
  under a parent its names are those of the parent followed by its own. For the rows
  \<^verbatim>\<open>data\<close> under the root and \<^verbatim>\<open>raw\<close> under \<^verbatim>\<open>data\<close> the minimal build gives \<^verbatim>\<open>raw\<close>
  the path \<^verbatim>\<open>./data/raw\<close>.
\<close>

theorem folder_path_joins_names_from_root:
  "(has_names self \<longrightarrow> folder_path self = Inr (join ''/'' (root_to_node self)))
   \<and> (Folder_init name par readme st = (Inr self, st') \<and> check_name name = Inr ()
        \<longrightarrow> has_names self
            \<and> root_to_node self
                = (case par of None \<Rightarrow> [''.''] | Some p \<Rightarrow> root_to_node p @ [name]))
   \<and> map_option folder_path
        (folder_tree (snd (create_project_tree
           [mk_row ''data'' ''root'' None True, mk_row ''raw'' ''data'' None True] True
           (fresh w))) ''raw'')
      = Some (Inr ''./data/raw'')"
proof (intro conjI impI)
  assume "has_names self"
  then show "folder_path self = Inr (join ''/'' (root_to_node self))"
    by (simp add: folder_path_eq)
next
  assume a: "Folder_init name par readme st = (Inr self, st') \<and> check_name name = Inr ()"
  then show "has_names self"
    using Folder_init_valid_has_names by blast
  from a show "root_to_node self
      = (case par of None \<Rightarrow> [''.''] | Some p \<Rightarrow> root_to_node p @ [name])"
    using Folder_init_valid_has_names by blast
next
  show "map_option folder_path
        (folder_tree (snd (create_project_tree
           [mk_row ''data'' ''root'' None True, mk_row ''raw'' ''data'' None True] True
           (fresh w))) ''raw'')
      = Some (Inr ''./data/raw'')"
    by (simp add: run_simps check_name_examples)
qed

theorem folder_path_joins_names_from_root_witness:
  "has_names (Folder (Some ''raw'') (Some (Folder (Some ''data'') (Some root_folder) None)) None)
   \<and> folder_path (Folder (Some ''raw'') (Some (Folder (Some ''data'') (Some root_folder) None)) None)
       = Inr ''./data/raw''
   \<and> Folder_init ''anything'' None None empty_world = (Inr root_folder, empty_world)
   \<and> check_name ''anything'' = Inr ()
   \<and> root_to_node root_folder = [''.'']"
proof -
  have i: "Folder_init ''anything'' None None empty_world = (Inr root_folder, empty_world)"
    and c: "check_name ''anything'' = Inr ()"
    by (simp_all add: Folder_init_def check_name_def reserved_chars_def reserved_names_def
        root_folder_def)
  have h: "has_names (Folder (Some ''raw'')
             (Some (Folder (Some ''data'') (Some root_folder) None)) None)"
    by (simp add: root_folder_def)
  show ?thesis
    using h i c
      folder_path_joins_names_from_root
        [where self = "Folder (Some ''raw'')
                         (Some (Folder (Some ''data'') (Some root_folder) None)) None"]
      folder_path_joins_names_from_root
        [where self = root_folder and name = "''anything''" and par = None
           and readme = None and st = empty_world and st' = empty_world]
    by (simp add: root_folder_def)
qed

subsection \<open>Failures of the resolution\<close>

lemma index_nth:
  "distinct xs \<Longrightarrow> i < length xs \<Longrightarrow> index xs (xs ! i) = i"
proof (induction xs arbitrary: i)
  case Nil
  then show ?case by simp
next
  case (Cons x xs)
  then show ?case by (cases i) (auto simp: index_def)
qed

lemma index_less: "x \<in> set xs \<Longrightarrow> index xs x < length xs"
  by (induction xs) (auto simp: index_def)


lemma create_project_tree_split:
  assumes "i < length df" and "tree_loop df minimal [0..<i] st0 = (Returned True, st)"
  shows "create_project_tree df minimal st0 = tree_loop df minimal (i # [Suc i..<length df]) st"
proof -
  have "[0..<length df] = [0..<i] @ (i # [Suc i..<length df])"
    using assms(1) by (metis less_imp_le_nat upt_add_eq_append upt_conv_Cons le0 le_add_diff_inverse)
  then show ?thesis
    using assms(2) by (simp add: create_project_tree_def tree_loop_append)
qed

text \<open>
  C10. As stated the claim fails (see the counterexample below): the loop looks at a row
  only if the build mode selects it, and only if no earlier row has ended the build. A
  row that is its own parent and outside the minimal set is passed over by a minimal
  build, which returns true; and a row before it whose parent is missing ends the build
  with another report. Amended: a row whose parent is its own name, selected by the build
  mode, not registered when the loop of \<^verbatim>\<open>create_project_tree\<close> comes to it, every
  earlier row having been processed without failure: the resolution is called with
  \<^verbatim>\<open>explored = [folder_name]\<close>, finds the name among the rows and in \<^verbatim>\<open>explored\<close>,
  prints the circular-reference line and fails, and the build returns false. The state
  \<open>st\<close> is the one the loop has reached after the rows before \<open>i\<close>.
\<close>

theorem self_parent_is_circular:
  assumes "i < length df"
    and "row_parent (df ! i) = row_folder_name (df ! i)"
    and "is_candidate minimal (df ! i)"
    and "tree_loop df minimal [0..<i] st0 = (Returned True, st)"
    and "folder_tree st (row_folder_name (df ! i)) = None"
  shows "check_parent_branch_exists df minimal (row_parent (df ! i))
           [row_folder_name (df ! i)] st
         = (False, print (Line (''The parent of folder '' @ row_folder_name (df ! i)
                                @ '' refers to a child folder already explored'')) st)
       \<and> create_project_tree df minimal st0
         = (Returned False, print (Line (''The parent of folder '' @ row_folder_name (df ! i)
                                @ '' refers to a child folder already explored'')) st)"
proof -
  have mem: "row_folder_name (df ! i) \<in> set (names df)"
    using assms(1) by (simp add: names_def)
  have c: "check_parent_branch_exists df minimal (row_parent (df ! i))
             [row_folder_name (df ! i)] st
           = (False, print (Line (''The parent of folder '' @ row_folder_name (df ! i)
                                  @ '' refers to a child folder already explored'')) st)"
    using mem assms(2,5) by (subst check_unfold) simp
  moreover have "create_project_tree df minimal st0
      = tree_loop df minimal (i # [Suc i..<length df]) st"
    using assms(1,4) by (rule create_project_tree_split)
  ultimately show ?thesis
    using assms(3) by (simp add: tree_loop_Cons)
qed

theorem self_parent_is_circular_witness:
  "create_project_tree
     [mk_row ''data'' ''root'' None True, mk_row ''loop'' ''loop'' None True] True
     (fresh empty_world)
   = (Returned False,
      print (Line ''The parent of folder loop refers to a child folder already explored'')
        (snd (tree_loop
           [mk_row ''data'' ''root'' None True, mk_row ''loop'' ''loop'' None True] True [0]
           (fresh empty_world))))"
proof -
  let ?df = "[mk_row ''data'' ''root'' None True, mk_row ''loop'' ''loop'' None True]"
  let ?st = "snd (tree_loop ?df True [0] (fresh empty_world))"
  have r: "tree_loop ?df True [0..<1] (fresh empty_world) = (Returned True, ?st)"
    by (simp add: run_simps check_name_examples empty_world_def)
  have n: "folder_tree ?st (row_folder_name (?df ! 1)) = None"
    by (simp add: run_simps check_name_examples empty_world_def)
  have "1 < length ?df" "row_parent (?df ! 1) = row_folder_name (?df ! 1)"
    "is_candidate True (?df ! 1)"
    by (simp_all add: mk_row_def is_candidate_def)
  from self_parent_is_circular [OF this r n] show ?thesis
    by (simp add: mk_row_def)
qed

text \<open>
  The counterexample to C10. The single row \<^verbatim>\<open>loop\<close> under \<^verbatim>\<open>loop\<close>, not in the
  minimal set: the minimal build passes it over, prints nothing and returns true. The
  rows \<^verbatim>\<open>x\<close> under \<^verbatim>\<open>ghost\<close> and \<^verbatim>\<open>loop\<close> under \<^verbatim>\<open>loop\<close>: the full build ends at
  the first row, and the only line printed reports the missing parent.
\<close>

theorem self_parent_counterexample:
  "create_project_tree [mk_row ''loop'' ''loop'' None False] True (fresh empty_world)
   = (Returned True, fresh empty_world)
   \<and> create_project_tree
       [mk_row ''x'' ''ghost'' None False, mk_row ''loop'' ''loop'' None False] False
       (fresh empty_world)
     = (Returned False,
        print (Line ''Parent folder ghost does not exist in the template file'')
          (fresh empty_world))"
  by (simp add: run_simps empty_world_def)

subsection \<open>What the operations do to the dictionary\<close>

lemma create_folder_folder_tree:
  "folder_tree (snd (create_folder self st)) = folder_tree st"
  by (simp add: create_folder_def print_def Let_def split: sum.split option.split)

lemma Folder_init_folder_tree:
  "folder_tree (snd (Folder_init name par readme st)) = folder_tree st"
proof -
  have "folder_tree (snd (case create_folder self st of
            (Inl e, st') \<Rightarrow> (Inl e, st') | (Inr u, st') \<Rightarrow> (Inr self, st')))
        = folder_tree st" for self :: Folder
    using create_folder_folder_tree [of self st]
    by (auto split: prod.split sum.split)
  then show ?thesis
    by (simp add: Folder_init_def print_def Let_def split: sum.split)
qed

lemma add_folder_to_tree_cases:
  "(\<exists>e. add_folder_to_tree df i st = (Inl e, snd (add_folder_to_tree df i st))
        \<and> folder_tree (snd (add_folder_to_tree df i st)) = folder_tree st)
   \<or> (\<exists>pf f st1. folder_tree st (row_parent (df ! i)) = Some pf
        \<and> Folder_init (row_folder_name (df ! i)) (Some pf) (row_readme_text (df ! i)) st
            = (Inr f, st1)
        \<and> add_folder_to_tree df i st
            = (Inr (), st1\<lparr>folder_tree := (folder_tree st1)(row_folder_name (df ! i) \<mapsto> f)\<rparr>)
        \<and> folder_tree st1 = folder_tree st)"
proof (cases "folder_tree st (row_parent (df ! i))")
  case None
  then show ?thesis by (simp add: add_folder_to_tree_def)
next
  case (Some pf)
  obtain r st1 where fi:
    "Folder_init (row_folder_name (df ! i)) (Some pf) (row_readme_text (df ! i)) st = (r, st1)"
    by (cases "Folder_init (row_folder_name (df ! i)) (Some pf) (row_readme_text (df ! i)) st")
  then have ft: "folder_tree st1 = folder_tree st"
    using Folder_init_folder_tree
      [of "row_folder_name (df ! i)" "Some pf" "row_readme_text (df ! i)" st]
    by simp
  show ?thesis
  proof (cases r)
    case (Inl e)
    then show ?thesis using Some fi ft by (simp add: add_folder_to_tree_def)
  next
    case (Inr f)
    then show ?thesis using Some fi ft by (simp add: add_folder_to_tree_def)
  qed
qed


lemma add_folder_to_tree_dom_upper:
  "dom (folder_tree (snd (add_folder_to_tree df i st)))
   \<subseteq> insert (row_folder_name (df ! i)) (dom (folder_tree st))"
  using add_folder_to_tree_cases [of df i st] by auto

text \<open>Induction along the recursion of the resolution, for one table and one mode.\<close>

lemma check_induct:
  assumes "\<And>par explored (st :: state).
      (folder_tree st par = None \<Longrightarrow> par \<in> set (names df) \<Longrightarrow> par \<notin> set explored \<Longrightarrow>
       is_candidate minimal (df ! index (names df) par) \<Longrightarrow>
       P (row_parent (df ! index (names df) par)) (explored @ [par]) st)
      \<Longrightarrow> P par explored st"
  shows "P par explored st"
proof -
  have "d = df \<longrightarrow> m = minimal \<longrightarrow> P par explored st" for d m
  proof (induction d m par explored st rule: check_parent_branch_exists.induct)
    case (1 d m par explored st)
    show ?case
    proof (intro impI)
      assume d: "d = df" and m: "m = minimal"
      show "P par explored st"
      proof (rule assms)
        assume "folder_tree st par = None" "par \<in> set (names df)" "par \<notin> set explored"
          "is_candidate minimal (df ! index (names df) par)"
        then show "P (row_parent (df ! index (names df) par)) (explored @ [par]) st"
          using "1.IH" d m by (simp add: names_def is_candidate_def)
      qed
    qed
  qed
  then show ?thesis by simp
qed

lemma check_rec:
  assumes "folder_tree st par = None" and "par \<in> set (names df)" and "par \<notin> set explored"
    and "is_candidate minimal (df ! index (names df) par)"
  shows "check_parent_branch_exists df minimal par explored st =
     (case check_parent_branch_exists df minimal (row_parent (df ! index (names df) par))
             (explored @ [par]) st of
        (False, st') \<Rightarrow> (False, st')
      | (True, st') \<Rightarrow> (True, snd (add_folder_to_tree df (index (names df) par) st')))"
  using assms by (subst check_unfold) simp

text \<open>
  A property of the state that printing keeps, and that storing a candidate row keeps, is
  kept by the resolution and by the loop.
\<close>

lemma check_preserves:
  assumes pr: "\<And>l s. Q s \<Longrightarrow> Q (print l s)"
    and ad: "\<And>i s. i < length df \<Longrightarrow> is_candidate minimal (df ! i) \<Longrightarrow> Q s
                \<Longrightarrow> Q (snd (add_folder_to_tree df i s))"
  shows "Q st \<Longrightarrow> Q (snd (check_parent_branch_exists df minimal par explored st))"
proof (induction par explored st rule: check_induct [where df = df and minimal = minimal])
  case (1 par explored st)
  show ?case
  proof (cases "folder_tree st par = None \<and> par \<in> set (names df) \<and> par \<notin> set explored
                \<and> is_candidate minimal (df ! index (names df) par)")
    case False
    then show ?thesis using "1.prems" pr by (subst check_unfold) (auto split: option.split)
  next
    case True
    let ?i = "index (names df) par"
    obtain b st' where c:
      "check_parent_branch_exists df minimal (row_parent (df ! ?i)) (explored @ [par]) st
       = (b, st')"
      by (cases "check_parent_branch_exists df minimal (row_parent (df ! ?i))
                   (explored @ [par]) st")
    have q: "Q st'" using "1.IH" True "1.prems" c by simp
    have "?i < length df" using True index_less [of par "names df"] by (simp add: names_def)
    then have "Q (snd (add_folder_to_tree df ?i st'))" using ad True q by blast
    then show ?thesis using True c q by (simp add: check_rec split: bool.split)
  qed
qed

lemma tree_loop_preserves:
  assumes pr: "\<And>l s. Q s \<Longrightarrow> Q (print l s)"
    and ad: "\<And>i s. i < length df \<Longrightarrow> is_candidate minimal (df ! i) \<Longrightarrow> Q s
                \<Longrightarrow> Q (snd (add_folder_to_tree df i s))"
  shows "\<forall>i \<in> set is. i < length df \<Longrightarrow> Q st \<Longrightarrow> Q (snd (tree_loop df minimal is st))"
proof (induction "is" arbitrary: st)
  case Nil
  then show ?case by simp
next
  case (Cons i "is")
  show ?case
  proof (cases "is_candidate minimal (df ! i)")
    case False
    then show ?thesis using Cons by (simp add: tree_loop_Cons)
  next
    case True
    obtain b st' where c:
      "check_parent_branch_exists df minimal (row_parent (df ! i)) [row_folder_name (df ! i)] st
       = (b, st')"
      by (cases "check_parent_branch_exists df minimal (row_parent (df ! i))
                   [row_folder_name (df ! i)] st")
    have q: "Q st'"
      using check_preserves [of Q df minimal st "row_parent (df ! i)" "[row_folder_name (df ! i)]"]
        pr ad Cons.prems(2) c by simp
    obtain r st'' where a: "add_folder_to_tree df i st' = (r, st'')"
      by (cases "add_folder_to_tree df i st'")
    have q': "Q st''" using ad [of i st'] True q a Cons.prems(1) by simp
    show ?thesis
    proof (cases b)
      case False
      then show ?thesis using True c q by (simp add: tree_loop_Cons)
    next
      case b: True
      show ?thesis
      proof (cases r)
        case (Inl e)
        then show ?thesis using True c b a q' by (simp add: tree_loop_Cons)
      next
        case (Inr u)
        then show ?thesis using True c b a q' Cons.IH [of st''] Cons.prems(1)
          by (simp add: tree_loop_Cons)
      qed
    qed
  qed
qed





subsection \<open>Cycles and excluded parents\<close>

lemma row_by_name:
  assumes "distinct (names df)" and "r \<in> set df" and "i < length df"
    and "row_folder_name r = row_folder_name (df ! i)"
  shows "r = df ! i"
proof -
  have "inj_on row_folder_name (set df)"
    using assms(1) by (simp add: names_def distinct_map)
  moreover have "df ! i \<in> set df" using assms(3) by simp
  ultimately show ?thesis using assms(2,4) by (auto dest: inj_onD)
qed

lemma index_row:
  assumes "distinct (names df)" and "i < length df"
  shows "index (names df) (row_folder_name (df ! i)) = i"
  using index_nth [of "names df" i] assms by (simp add: names_def)

text \<open>
  C2. As stated the claim fails in three ways (see the counterexample below): in a
  minimal build rows outside the minimal set are never resolved; a second row with the
  name of one of the two can break the cycle, since the resolution takes the first row of
  a name; and a minimal build reports the excluded parent, not the cycle, when only one of
  the two rows is in the minimal set. Amended: the names of the table are distinct, both
  rows are candidates of the build mode, and the loop reaches row \<open>a\<close>, the first of the
  two, in a state \<open>st\<close> where neither name is registered. Then the build returns false and
  the last line printed is the circular-reference line, found through \<^verbatim>\<open>explored\<close>,
  which holds both names when the resolution comes back to the first.
\<close>

theorem direct_cycle_is_circular:
  assumes "distinct (names df)"
    and "a < length df" and "b < length df"
    and "row_parent (df ! a) = row_folder_name (df ! b)"
    and "row_parent (df ! b) = row_folder_name (df ! a)"
    and "is_candidate minimal (df ! a)" and "is_candidate minimal (df ! b)"
    and "tree_loop df minimal [0..<a] st0 = (Returned True, st)"
    and "folder_tree st (row_folder_name (df ! a)) = None"
    and "folder_tree st (row_folder_name (df ! b)) = None"
  shows "create_project_tree df minimal st0
         = (Returned False, print (Line (''The parent of folder '' @ row_folder_name (df ! a)
                                @ '' refers to a child folder already explored'')) st)"
proof -
  let ?A = "row_folder_name (df ! a)" and ?B = "row_folder_name (df ! b)"
  let ?msg = "Line (''The parent of folder '' @ ?A
                    @ '' refers to a child folder already explored'')"
  have memA: "?A \<in> set (names df)" and memB: "?B \<in> set (names df)"
    using assms(2,3) by (simp_all add: names_def)
  have revisit: "check_parent_branch_exists df minimal ?A (e @ [?A] @ e') st
              = (False, print ?msg st)" for e e'
    using memA assms(9) by (subst check_unfold) simp
  have c: "check_parent_branch_exists df minimal ?B [?A] st = (False, print ?msg st)"
  proof (cases "?B = ?A")
    case True
    then show ?thesis using revisit [of "[]" "[]"] by simp
  next
    case False
    have "index (names df) ?B = b" using assms(1,3) by (rule index_row)
    then show ?thesis
      using False memB assms(5,7,10) revisit [of "[]" "[?B]"]
      by (subst check_unfold) simp
  qed
  have "create_project_tree df minimal st0
      = tree_loop df minimal (a # [Suc a..<length df]) st"
    using assms(2,8) by (rule create_project_tree_split)
  then show ?thesis
    using assms(4,6) c by (simp add: tree_loop_Cons)
qed

theorem direct_cycle_is_circular_witness:
  "create_project_tree
     [mk_row ''data'' ''root'' None True, mk_row ''a'' ''b'' None True,
      mk_row ''b'' ''a'' None True] True (fresh empty_world)
   = (Returned False,
      print (Line ''The parent of folder a refers to a child folder already explored'')
        (snd (tree_loop
           [mk_row ''data'' ''root'' None True, mk_row ''a'' ''b'' None True,
            mk_row ''b'' ''a'' None True] True [0] (fresh empty_world))))"
proof -
  let ?df = "[mk_row ''data'' ''root'' None True, mk_row ''a'' ''b'' None True,
              mk_row ''b'' ''a'' None True]"
  let ?st = "snd (tree_loop ?df True [0] (fresh empty_world))"
  have r: "tree_loop ?df True [0..<1] (fresh empty_world) = (Returned True, ?st)"
    by (simp add: run_simps check_name_examples empty_world_def)
  have n: "folder_tree ?st (row_folder_name (?df ! 1)) = None"
    "folder_tree ?st (row_folder_name (?df ! 2)) = None"
    by (simp_all add: run_simps check_name_examples empty_world_def)
  have "distinct (names ?df)" "1 < length ?df" "2 < length ?df"
    "row_parent (?df ! 1) = row_folder_name (?df ! 2)"
    "row_parent (?df ! 2) = row_folder_name (?df ! 1)"
    "is_candidate True (?df ! 1)" "is_candidate True (?df ! 2)"
    by (simp_all add: mk_row_def is_candidate_def names_def)
  from direct_cycle_is_circular [OF this r n] show ?thesis
    by (simp add: mk_row_def)
qed

text \<open>
  The counterexample to C2: with both rows outside the minimal set the minimal build
  returns true and prints nothing; with a second row named \<^verbatim>\<open>b\<close> under the root the
  full build returns true; with only \<^verbatim>\<open>a\<close> in the minimal set the minimal build
  returns false but reports the excluded parent.
\<close>

theorem direct_cycle_counterexample:
  "create_project_tree [mk_row ''a'' ''b'' None False, mk_row ''b'' ''a'' None False] True
     (fresh empty_world) = (Returned True, fresh empty_world)
   \<and> fst (create_project_tree
       [mk_row ''a'' ''b'' None False, mk_row ''b'' ''root'' None False,
        mk_row ''b'' ''a'' None False] False (fresh empty_world)) = Returned True
   \<and> create_project_tree [mk_row ''a'' ''b'' None True, mk_row ''b'' ''a'' None False] True
     (fresh empty_world)
     = (Returned False,
        print (Line (''Minimal template required.Parent folder b is not included''
                     @ '' in the minimal project template.'')) (fresh empty_world))"
  by (simp add: run_simps check_name_examples empty_world_def)

lemma candidate_name:
  "i < length df \<Longrightarrow> is_candidate minimal (df ! i)
   \<Longrightarrow> row_folder_name (df ! i) \<in> set (names (candidates minimal df))"
  by (auto simp: names_def candidates_def)

lemma tree_loop_keys_are_candidates:
  assumes "dom (folder_tree st) \<subseteq> insert ''root'' (set (names (candidates minimal df)))"
    and "\<forall>i \<in> set is. i < length df"
  shows "dom (folder_tree (snd (tree_loop df minimal is st)))
         \<subseteq> insert ''root'' (set (names (candidates minimal df)))"
  using assms(2,1)
proof (rule tree_loop_preserves [where Q = "\<lambda>s. dom (folder_tree s)
           \<subseteq> insert ''root'' (set (names (candidates minimal df)))", rotated 2])
  show "dom (folder_tree (print l s)) \<subseteq> insert ''root'' (set (names (candidates minimal df)))"
    if "dom (folder_tree s) \<subseteq> insert ''root'' (set (names (candidates minimal df)))" for l s
    using that by (simp add: print_def)
  show "dom (folder_tree (snd (add_folder_to_tree df i s)))
        \<subseteq> insert ''root'' (set (names (candidates minimal df)))"
    if "i < length df" "is_candidate minimal (df ! i)"
      "dom (folder_tree s) \<subseteq> insert ''root'' (set (names (candidates minimal df)))" for i s
    using that add_folder_to_tree_dom_upper [of df i s] candidate_name [of i df minimal]
    by blast
qed

text \<open>
  C3. As stated the claim fails (see the counterexample below): a second row with the name
  of the parent, itself in the minimal set, gets the parent registered and the build
  returns true; and a row that fails before the candidate is reached ends the build with
  another report. Amended: the names of the table are distinct and the loop of the minimal
  build on a fresh builder reaches the candidate, row \<open>c\<close>. The parent, row \<open>p\<close>, is
  outside the minimal set and is not named as the root key, so it was never registered;
  the build returns false and the last line printed says that the minimal template
  requires the excluded parent.
\<close>

theorem excluded_parent_fails:
  assumes "distinct (names df)"
    and "c < length df" and "p < length df"
    and "row_parent (df ! c) = row_folder_name (df ! p)"
    and "row_minimal (df ! c)" and "\<not> row_minimal (df ! p)"
    and "row_folder_name (df ! p) \<noteq> ''root''"
    and "tree_loop df True [0..<c] (fresh w) = (Returned True, st)"
  shows "create_project_tree df True (fresh w)
         = (Returned False,
            print (Line (''Minimal template required.'' @ ''Parent folder ''
                         @ row_folder_name (df ! p)
                         @ '' is not included in the minimal project template.'')) st)"
proof -
  let ?P = "row_folder_name (df ! p)" and ?C = "row_folder_name (df ! c)"
  let ?K = "insert ''root'' (set (names (candidates True df)))"
  have "dom (folder_tree (fresh w)) \<subseteq> ?K" by (simp add: fresh_eq)
  then have "dom (folder_tree (snd (tree_loop df True [0..<c] (fresh w)))) \<subseteq> ?K"
    using assms(2) by (intro tree_loop_keys_are_candidates) simp_all
  then have keys: "dom (folder_tree st) \<subseteq> ?K" using assms(8) by simp
  have "?P \<notin> set (names (candidates True df))"
  proof
    assume "?P \<in> set (names (candidates True df))"
    then obtain r where r: "r \<in> set df" "is_candidate True r" "row_folder_name r = ?P"
      by (auto simp: names_def candidates_def)
    then have "r = df ! p" using assms(1,3) by (intro row_by_name) simp_all
    then show False using r(2) assms(6) by (simp add: is_candidate_def)
  qed
  then have unreg: "folder_tree st ?P = None" using keys assms(7) by blast
  have memP: "?P \<in> set (names df)" using assms(3) by (simp add: names_def)
  have neq: "?P \<noteq> ?C"
  proof
    assume "?P = ?C"
    then have "index (names df) ?P = index (names df) ?C" by simp
    then have "p = c" using assms(1,2,3) by (simp add: index_row)
    then show False using assms(5,6) by simp
  qed
  have idx: "index (names df) ?P = p" using assms(1,3) by (rule index_row)
  have c: "check_parent_branch_exists df True ?P [?C] st
      = (False, print (Line (''Minimal template required.'' @ ''Parent folder '' @ ?P
                         @ '' is not included in the minimal project template.'')) st)"
    using unreg memP neq idx assms(6)
    by (subst check_unfold) (simp add: is_candidate_def)
  have "create_project_tree df True (fresh w)
      = tree_loop df True (c # [Suc c..<length df]) st"
    using assms(2,8) by (rule create_project_tree_split)
  then show ?thesis
    using assms(4,5) c by (simp add: tree_loop_Cons is_candidate_def)
qed

theorem excluded_parent_fails_witness:
  "create_project_tree
     [mk_row ''data'' ''root'' None True, mk_row ''c'' ''p'' None True,
      mk_row ''p'' ''root'' None False] True (fresh empty_world)
   = (Returned False,
      print (Line (''Minimal template required.Parent folder p is not included''
                   @ '' in the minimal project template.''))
        (snd (tree_loop
           [mk_row ''data'' ''root'' None True, mk_row ''c'' ''p'' None True,
            mk_row ''p'' ''root'' None False] True [0] (fresh empty_world))))"
proof -
  let ?df = "[mk_row ''data'' ''root'' None True, mk_row ''c'' ''p'' None True,
              mk_row ''p'' ''root'' None False]"
  let ?st = "snd (tree_loop ?df True [0] (fresh empty_world))"
  have r: "tree_loop ?df True [0..<1] (fresh empty_world) = (Returned True, ?st)"
    by (simp add: run_simps check_name_examples empty_world_def)
  have "distinct (names ?df)" "1 < length ?df" "2 < length ?df"
    "row_parent (?df ! 1) = row_folder_name (?df ! 2)"
    "row_minimal (?df ! 1)" "\<not> row_minimal (?df ! 2)"
    "row_folder_name (?df ! 2) \<noteq> ''root''"
    by (simp_all add: mk_row_def names_def)
  from excluded_parent_fails [OF this r] show ?thesis
    by (simp add: mk_row_def)
qed

text \<open>
  The counterexample to C3: \<^verbatim>\<open>c\<close> is a candidate whose parent \<^verbatim>\<open>p\<close> has a row outside
  the minimal set, the first of that name. With a second row \<^verbatim>\<open>p\<close> inside the minimal
  set the build returns true. With a candidate before it whose parent is missing, the build
  returns false on that row and the line about the excluded parent is never printed.
\<close>

theorem excluded_parent_counterexample:
  "fst (create_project_tree
       [mk_row ''p'' ''root'' None False, mk_row ''p'' ''root'' None True,
        mk_row ''c'' ''p'' None True] True (fresh empty_world)) = Returned True
   \<and> create_project_tree
       [mk_row ''a'' ''b'' None True, mk_row ''p'' ''root'' None False,
        mk_row ''c'' ''p'' None True] True (fresh empty_world)
     = (Returned False,
        print (Line ''Parent folder b does not exist in the template file'')
          (fresh empty_world))"
  by (simp add: run_simps check_name_examples empty_world_def)

subsection \<open>The dictionary agrees with the table\<close>













subsection \<open>Paths as strings\<close>








lemma readme_path_segment:
  "readme_path x m = x @ ''/'' @ (''README_'' @ capitalize m @ ''.md'')"
  by (simp add: readme_path_def)






subsection \<open>What a construction does to the file system\<close>





subsection \<open>Invariants of the file system\<close>




lemma print_fs [simp]:
  "readmes_ok (print l s) = readmes_ok s"
  "folders_exist (print l s) = folders_exist s"
  "files_known w (print l s) = files_known w s"
  "fs_ok w (print l s) = fs_ok w s"
  by (simp_all add: readmes_ok_def folders_exist_def files_known_def fs_ok_def print_def)

lemma print_folder_tree [simp]: "folder_tree (print l s) = folder_tree s"
  by (simp add: print_def)

subsection \<open>Entries of a dictionary that agrees with the table\<close>




subsection \<open>Storing a row again changes no entry\<close>






subsection \<open>Well-formed tables build completely\<close>






subsection \<open>A build that returns true had a well-formed table\<close>






subsection \<open>The full build\<close>








subsection \<open>The order of the rows\<close>








end
